theory Spec2Isabelle
  imports Main "HOL-Library.Sublist"
begin

section \<open>The connection supervisor of src/baileys/index.ts\<close>

text \<open>
  The file holds two functions: \<open>connectToDatabase\<close> (lines 18-30), which picks the
  session store and makes sure the session directory exists, and
  \<open>connectToWhatsApp\<close> (lines 34-78), which loads the auth state, makes a socket and
  registers the listener of \<open>connection.update\<close> (lines 42-69). Both are asynchronous:
  a call runs in the caller's turn up to its first suspension and is resumed in a later
  turn. The model passes the world (filesystem, Mongo collection, suspended connection
  attempts, sockets, terminal output) explicitly and returns an exception as \<open>Inl\<close>.
  The listeners of \<open>creds.update\<close> and \<open>messages.upsert\<close> (lines 72-77) hand the event
  to \<open>saveCreds\<close> of the library and to \<open>messagesHandler\<close>; they are not modelled.
\<close>

subsection \<open>Data\<close>

text \<open>
  The three fields of a connection update that the listener reads (line 43). Each may be
  absent. \<open>lastDisconnect.error\<close> is cast to a Boom and read through optional
  chaining (line 52), so the error, its \<open>output\<close> and the \<open>statusCode\<close> are all
  optional.
\<close>

datatype wa_connection = ConnOpen | ConnConnecting | ConnClose

record boom_output =
  statusCode :: "int option"

record boom =
  output' :: "boom_output option"

record last_disconnect =
  error :: "boom option"

record connection_update =
  connection :: "wa_connection option"
  lastDisconnect :: "last_disconnect option"
  qr :: "string option"

text \<open>\<open>DisconnectReason.loggedOut\<close> of the Baileys library is the status code 401.\<close>

definition loggedOut :: int where
  "loggedOut = 401"

text \<open>
  Credentials as a socket receives them: the ones a store holds, or the blank ones the
  auth-state loaders of Baileys make when the store holds none (\<open>initAuthCreds\<close>); a
  socket given blank credentials is sent a pairing challenge.
\<close>

datatype creds = InitAuthCreds | StoredCreds string

text \<open>
  The filesystem, as far as the program touches it: directories by absolute path, each
  with its files (name and content). The session directory holds \<open>creds.json\<close>.
\<close>

type_synonym directory = "(string \<times> string) list"

type_synonym filesystem = "(string \<times> directory) list"

datatype js_exception = ENOENT | EEXIST | ERR_FS_EISDIR | EPERM | QrcodeError

text \<open>The load that \<open>connectToDatabase\<close> returns awaiting (lines 20 and 28).\<close>

datatype auth_load = UseMongoDBAuthState | UseMultiFileAuthState string

text \<open>
  What the program reads from its surroundings: \<open>ENV.MONGO_ENABLED\<close>,
  \<open>process.cwd()\<close>, \<open>config.sessionStorage.wwjsPath\<close>, whether
  \<open>qrcode.generate\<close> throws on a given text, and whether the operating system refuses
  to remove a given path (a busy or protected directory: EBUSY, EACCES, EPERM).
\<close>

record env =
  MONGO_ENABLED :: bool
  cwd :: string
  wwjsPath :: string
  qrcode_throws :: "string \<Rightarrow> bool"
  rm_refused :: "string \<Rightarrow> bool"

text \<open>
  The world: the filesystem; the credentials document of the Mongo auth collection; the
  calls of \<open>connectToWhatsApp\<close> suspended at line 36, oldest first; the sockets made at
  line 39, newest first, each with the credentials it was given; the QR codes printed;
  the lines of \<open>console.error\<close>; the rejections of promises nobody awaits.
\<close>

record world =
  fs :: filesystem
  mongo :: "string option"
  in_flight :: "auth_load list"
  sockets :: "creds list"
  terminal :: "string list"
  stderr :: "string list"
  rejections :: "js_exception list"

subsection \<open>Node's filesystem calls and the loaders of the auth state\<close>

definition path_join :: "string \<Rightarrow> string \<Rightarrow> string" where
  "path_join a b = a @ ''/'' @ b"

definition existsSync :: "string \<Rightarrow> filesystem \<Rightarrow> bool" where
  "existsSync p fsys = (map_of fsys p \<noteq> None)"

text \<open>
  \<open>fs.mkdirSync(p, {recursive})\<close>: with \<open>recursive\<close> an existing directory is left as
  it is, without it the call throws EEXIST. Ancestors are not modelled.
\<close>

definition mkdirSync :: "string \<Rightarrow> bool \<Rightarrow> filesystem \<Rightarrow> js_exception + filesystem" where
  "mkdirSync p recursive fsys =
     (if existsSync p fsys then (if recursive then Inr fsys else Inl EEXIST)
      else Inr ((p, []) # fsys))"

text \<open>A path is under \<open>p\<close> when it is \<open>p\<close> or lies below it.\<close>

definition under :: "string \<Rightarrow> string \<Rightarrow> bool" where
  "under p q = (q = p \<or> prefix (p @ ''/'') q)"

definition remove_tree :: "string \<Rightarrow> filesystem \<Rightarrow> filesystem" where
  "remove_tree p fsys = filter (\<lambda>entry. \<not> under p (fst entry)) fsys"

text \<open>
  \<open>fs.rmSync(p, {force, recursive})\<close>: a missing path throws ENOENT unless \<open>force\<close>,
  which silences nothing else; a directory throws ERR_FS_EISDIR unless \<open>recursive\<close>;
  a removal that the operating system refuses throws (EPERM stands for EBUSY and EACCES
  too); otherwise the directory goes with everything under it. The first argument says
  which paths the operating system refuses to remove.
\<close>

definition rmSync :: "(string \<Rightarrow> bool) \<Rightarrow> string \<Rightarrow> bool \<Rightarrow> bool \<Rightarrow> filesystem \<Rightarrow>
    js_exception + filesystem" where
  "rmSync refused p force recursive fsys =
     (if existsSync p fsys then
        (if recursive then
           (if refused p then Inl EPERM else Inr (remove_tree p fsys))
         else Inl ERR_FS_EISDIR)
      else (if force then Inr fsys else Inl ENOENT))"

text \<open>
  The loaders are library code. Each returns the credentials its store holds, or blank
  ones when it holds none. \<open>useMultiFileAuthState\<close> reads \<open>creds.json\<close> of the
  folder; it is taken to fail on a missing folder, the case the guard of lines 25-27 is
  there for. \<open>useMongoDBAuthState\<close> reads the credentials document of the collection.
\<close>

definition creds_of :: "string option \<Rightarrow> creds" where
  "creds_of doc = (case doc of None \<Rightarrow> InitAuthCreds | Some c \<Rightarrow> StoredCreds c)"

definition useMultiFileAuthState :: "string \<Rightarrow> filesystem \<Rightarrow> js_exception + creds" where
  "useMultiFileAuthState folder fsys =
     (case map_of fsys folder of
        None \<Rightarrow> Inl ENOENT
      | Some files \<Rightarrow> Inr (creds_of (map_of files ''creds.json'')))"

definition useMongoDBAuthState :: "string option \<Rightarrow> creds" where
  "useMongoDBAuthState doc = creds_of doc"

subsection \<open>connectToDatabase (lines 18-30)\<close>

definition session_path :: "env \<Rightarrow> string" where
  "session_path e = path_join (cwd e) (wwjsPath e)"

text \<open>
  The call up to its suspension. With Mongo the load is returned at once; otherwise the
  path is joined, the directory is made when \<open>existsSync\<close> says it is missing, and the
  file load is returned. The result is the filesystem as the call leaves it and the load
  it awaits.
\<close>

definition connectToDatabase :: "env \<Rightarrow> filesystem \<Rightarrow> js_exception + (filesystem \<times> auth_load)" where
  "connectToDatabase e fsys =
     (if MONGO_ENABLED e then Inr (fsys, UseMongoDBAuthState)
      else
        (let wwjs = path_join (cwd e) (wwjsPath e) in
         (case (if \<not> existsSync wwjs fsys then mkdirSync wwjs True fsys else Inr fsys) of
            Inl ex \<Rightarrow> Inl ex
          | Inr fsys' \<Rightarrow> Inr (fsys', UseMultiFileAuthState wwjs))))"

text \<open>
  Modelled from the spec: the awaited load as the Session Store Adapter's
  \<open>load() -> Credential | Absent\<close>, run against the world of the turn that resumes it.
  The Mongo load goes through \<open>connectToMongoDB\<close> of src/baileys/database/mongo.ts,
  which is not among the sources, and the library's \<open>useMongoDBAuthState\<close>; it is taken
  to read the credentials document of the collection and nothing else.
\<close>

definition await_load :: "auth_load \<Rightarrow> world \<Rightarrow> js_exception + creds" where
  "await_load l w =
     (case l of
        UseMongoDBAuthState \<Rightarrow> Inr (useMongoDBAuthState (mongo w))
      | UseMultiFileAuthState folder \<Rightarrow> useMultiFileAuthState folder (fs w))"

subsection \<open>connectToWhatsApp (lines 34-78)\<close>

text \<open>
  A call of \<open>connectToWhatsApp\<close> runs \<open>connectToDatabase\<close> up to its suspension and is
  then a connection attempt in flight. An exception on the way rejects the promise of
  the call; it does not reach the caller, who does not await it (lines 55 and 60).
\<close>

definition connectToWhatsApp :: "env \<Rightarrow> world \<Rightarrow> world" where
  "connectToWhatsApp e w =
     (case connectToDatabase e (fs w) of
        Inl ex \<Rightarrow> w\<lparr>rejections := ex # rejections w\<rparr>
      | Inr (fsys', l) \<Rightarrow> w\<lparr>fs := fsys', in_flight := in_flight w @ [l]\<rparr>)"

text \<open>
  The oldest suspended call resumes: the load completes and \<open>makeWASocket\<close> is given
  the credentials (line 39); the listeners of lines 42-77 are those of this model.
\<close>

definition resume :: "world \<Rightarrow> world" where
  "resume w =
     (case in_flight w of
        [] \<Rightarrow> w
      | l # rest \<Rightarrow>
          (case await_load l w of
             Inl ex \<Rightarrow> w\<lparr>in_flight := rest, rejections := ex # rejections w\<rparr>
           | Inr c \<Rightarrow> w\<lparr>in_flight := rest, sockets := c # sockets w\<rparr>))"

subsection \<open>The listener of connection.update (lines 42-69)\<close>

text \<open>Line 52: \<open>(lastDisconnect.error as Boom)?.output?.statusCode\<close>.\<close>

definition error_statusCode :: "last_disconnect \<Rightarrow> int option" where
  "error_statusCode ld =
     (case error ld of
        None \<Rightarrow> None
      | Some b \<Rightarrow> (case output' b of None \<Rightarrow> None | Some out \<Rightarrow> statusCode out))"

definition shouldReconnect :: "last_disconnect \<Rightarrow> bool" where
  "shouldReconnect ld = (error_statusCode ld \<noteq> Some loggedOut)"

text \<open>Lines 45-47: a non-empty \<open>qr\<close> is printed, outside the \<open>try\<close>.\<close>

definition qr_step :: "env \<Rightarrow> connection_update \<Rightarrow> world \<Rightarrow> js_exception + world" where
  "qr_step e u w =
     (case qr u of
        None \<Rightarrow> Inr w
      | Some q \<Rightarrow>
          if q = [] then Inr w
          else if qrcode_throws e q then Inl QrcodeError
          else Inr (w\<lparr>terminal := q # terminal w\<rparr>))"

text \<open>Lines 50-65, the body of the \<open>try\<close>.\<close>

definition try_body :: "env \<Rightarrow> connection_update \<Rightarrow> world \<Rightarrow> js_exception + world" where
  "try_body e u w =
     (if connection u = Some ConnClose \<and> lastDisconnect u \<noteq> None then
        (case lastDisconnect u of
           None \<Rightarrow> Inr w
         | Some ld \<Rightarrow>
             if shouldReconnect ld then Inr (connectToWhatsApp e w)
             else if error ld \<noteq> None then
               (let wwjs = path_join (cwd e) (wwjsPath e) in
                (case rmSync (rm_refused e) wwjs True True (fs w) of
                   Inl ex \<Rightarrow> Inl ex
                 | Inr fsys' \<Rightarrow> Inr (connectToWhatsApp e (w\<lparr>fs := fsys'\<rparr>))))
             else Inr w)
      else if connection u = Some ConnOpen then Inr w
      else Inr w)"

text \<open>
  Lines 49-68: the \<open>try\<close> with its \<open>catch\<close>, which logs and goes on. Nothing is
  changed before \<open>rmSync\<close> throws, so the catch finds the world as the try found it.
\<close>

definition try_catch :: "env \<Rightarrow> connection_update \<Rightarrow> world \<Rightarrow> world" where
  "try_catch e u w =
     (case try_body e u w of
        Inl ex \<Rightarrow> w\<lparr>stderr := ''Error handling connection update:'' # stderr w\<rparr>
      | Inr w' \<Rightarrow> w')"

text \<open>The whole listener. It is asynchronous: an exception of the QR step rejects it.\<close>

definition on_connection_update :: "env \<Rightarrow> connection_update \<Rightarrow> world \<Rightarrow> js_exception + world" where
  "on_connection_update e u w =
     (case qr_step e u w of
        Inl ex \<Rightarrow> Inl ex
      | Inr w1 \<Rightarrow> Inr (try_catch e u w1))"

text \<open>
  The emitter calls the listener and drops its promise, so a rejection is unhandled and
  the world stays as the listener left it.
\<close>

definition emit_connection_update :: "env \<Rightarrow> world \<Rightarrow> connection_update \<Rightarrow> world" where
  "emit_connection_update e w u =
     (case on_connection_update e u w of
        Inl ex \<Rightarrow> w\<lparr>rejections := ex # rejections w\<rparr>
      | Inr w' \<Rightarrow> w')"

subsection \<open>Observations used to state the properties\<close>

text \<open>The credential that the configured session store holds, if any.\<close>

definition stored_credential :: "env \<Rightarrow> world \<Rightarrow> string option" where
  "stored_credential e w =
     (if MONGO_ENABLED e then mongo w
      else (case map_of (fs w) (session_path e) of
              None \<Rightarrow> None
            | Some files \<Rightarrow> map_of files ''creds.json''))"

text \<open>Whether the QR step of an update throws: it has a non-empty \<open>qr\<close> that the renderer rejects.\<close>

definition qr_throws :: "env \<Rightarrow> connection_update \<Rightarrow> bool" where
  "qr_throws e u = (case qr u of None \<Rightarrow> False | Some q \<Rightarrow> q \<noteq> [] \<and> qrcode_throws e q)"

text \<open>A disconnect notification: a \<open>close\<close> update that carries \<open>lastDisconnect\<close>.\<close>

definition disconnect_notification :: "connection_update \<Rightarrow> bool" where
  "disconnect_notification u = (connection u = Some ConnClose \<and> lastDisconnect u \<noteq> None)"

text \<open>A disconnect notification whose reason the listener takes for a logout.\<close>

definition logout_notification :: "connection_update \<Rightarrow> bool" where
  "logout_notification u =
     (connection u = Some ConnClose \<and>
      (case lastDisconnect u of None \<Rightarrow> False | Some ld \<Rightarrow> \<not> shouldReconnect ld))"

text \<open>
  Whether \<open>rmSync\<close> of line 59 throws in a world: the session directory exists and the
  operating system refuses to remove it.
\<close>

definition purge_throws :: "env \<Rightarrow> world \<Rightarrow> bool" where
  "purge_throws e w = (existsSync (session_path e) (fs w) \<and> rm_refused e (session_path e))"

text \<open>The filesystem after the removal of line 59, when it does not throw.\<close>

definition purged :: "env \<Rightarrow> filesystem \<Rightarrow> filesystem" where
  "purged e fsys = (if existsSync (session_path e) fsys then remove_tree (session_path e) fsys else fsys)"

text \<open>
  An update that makes the listener start a connection attempt in a world: a disconnect
  notification whose QR step does not throw and whose removal of the session directory,
  if its reason is a logout, does not throw either.
\<close>

definition starts_attempt :: "env \<Rightarrow> world \<Rightarrow> connection_update \<Rightarrow> bool" where
  "starts_attempt e w u =
     (disconnect_notification u \<and> \<not> qr_throws e u \<and> \<not> (logout_notification u \<and> purge_throws e w))"

text \<open>The attempts that a sequence of updates, delivered one after the other, starts.\<close>

fun attempts_started :: "env \<Rightarrow> world \<Rightarrow> connection_update list \<Rightarrow> nat" where
  "attempts_started e w [] = 0"
| "attempts_started e w (u # us) =
     (if starts_attempt e w u then 1 else 0) +
     attempts_started e (case on_connection_update e u w of
                           Inl ex \<Rightarrow> w\<lparr>rejections := ex # rejections w\<rparr>
                         | Inr w' \<Rightarrow> w') us"

text \<open>
  A turn of the event loop: an update is delivered to the listener, or the oldest
  suspended call of \<open>connectToWhatsApp\<close> resumes.
\<close>

datatype loop_turn = Update connection_update | Resume

definition run_turn :: "env \<Rightarrow> world \<Rightarrow> loop_turn \<Rightarrow> world" where
  "run_turn e w t = (case t of Update u \<Rightarrow> emit_connection_update e w u | Resume \<Rightarrow> resume w)"

text \<open>The load that \<open>connectToDatabase\<close> awaits under an environment.\<close>

definition env_load :: "env \<Rightarrow> auth_load" where
  "env_load e = (if MONGO_ENABLED e then UseMongoDBAuthState else UseMultiFileAuthState (session_path e))"

text \<open>
  The loads in flight are those of the environment, and with the file store the session
  directory exists while one is in flight.
\<close>

definition loads_ready :: "env \<Rightarrow> world \<Rightarrow> bool" where
  "loads_ready e w =
     (set (in_flight w) \<subseteq> {env_load e} \<and>
      (MONGO_ENABLED e \<or> in_flight w = [] \<or> existsSync (session_path e) (fs w)))"

subsection \<open>Sample inputs\<close>

definition env_file :: env where
  "env_file = \<lparr>MONGO_ENABLED = False, cwd = ''/app'', wwjsPath = ''session'',
                qrcode_throws = (\<lambda>q. False), rm_refused = (\<lambda>p. False)\<rparr>"

definition env_mongo :: env where
  "env_mongo = \<lparr>MONGO_ENABLED = True, cwd = ''/app'', wwjsPath = ''session'',
                 qrcode_throws = (\<lambda>q. False), rm_refused = (\<lambda>p. False)\<rparr>"

definition env_qr_fails :: env where
  "env_qr_fails = \<lparr>MONGO_ENABLED = False, cwd = ''/app'', wwjsPath = ''session'',
                    qrcode_throws = (\<lambda>q. True), rm_refused = (\<lambda>p. False)\<rparr>"

text \<open>The file store on a system that refuses to remove the session directory.\<close>

definition env_rm_refused :: env where
  "env_rm_refused = \<lparr>MONGO_ENABLED = False, cwd = ''/app'', wwjsPath = ''session'',
                      qrcode_throws = (\<lambda>q. False), rm_refused = (\<lambda>p. True)\<rparr>"

text \<open>A paired deployment: both stores hold the credential \<open>k1\<close>, one socket is up.\<close>

definition world_paired :: world where
  "world_paired = \<lparr>fs = [(''/app/session'', [(''creds.json'', ''k1'')])], mongo = Some ''k1'',
                    in_flight = [], sockets = [StoredCreds ''k1''], terminal = [], stderr = [],
                    rejections = []\<rparr>"

text \<open>A \<open>close\<close> update whose error is a Boom with the given status code.\<close>

definition close_with :: "int \<Rightarrow> connection_update" where
  "close_with code =
     \<lparr>connection = Some ConnClose,
      lastDisconnect = Some \<lparr>error = Some \<lparr>output' = Some \<lparr>statusCode = Some code\<rparr>\<rparr>\<rparr>,
      qr = None\<rparr>"

definition close_with_qr :: connection_update where
  "close_with_qr = (close_with 428)\<lparr>qr := Some ''2@pairing''\<rparr>"

text \<open>A \<open>close\<close> update whose \<open>lastDisconnect\<close> has no error, with a \<open>qr\<close>.\<close>

definition close_no_error_qr :: connection_update where
  "close_no_error_qr =
     \<lparr>connection = Some ConnClose, lastDisconnect = Some \<lparr>error = None\<rparr>, qr = Some ''2@ref''\<rparr>"

section \<open>The context manager\<close>

text \<open>
  The repository's sources hold no code of the context manager: the plan under docs/ names
  a file \<open>src/services/ConversationHistoryManager.ts\<close> still to be written. Its data
  and operations are therefore modelled from sections 3, 4.3 and 4.4 of the specification.
\<close>

subsection \<open>Data\<close>

text \<open>Modelled from the spec: the role of a Turn, one of user, assistant and system.\<close>

datatype role = RoleUser | RoleAssistant | RoleSystem

text \<open>Modelled from the spec: a Turn, \<open>{role, content, timestamp}\<close>; time in milliseconds.\<close>

record turn =
  role :: role
  content :: string
  timestamp :: int

text \<open>
  Modelled from the spec: a Conversation Record, the ordered turns (oldest first) with the
  first-seen and last-updated timestamps; its key is the pair (userId, modelName).
\<close>

record conversation =
  turns :: "turn list"
  firstSeen :: int
  lastUpdated :: int

text \<open>Modelled from the spec: the composite key (userId, modelName) of a record.\<close>

type_synonym conv_key = "string \<times> string"

text \<open>Modelled from the spec: the configuration surface of section 6.\<close>

record config =
  historyEnabled :: bool
  maxMessages :: nat
  cleanupDays :: nat
  cacheSize :: nat

text \<open>
  Modelled from the spec: the one error of section 7 that an operation of the manager
  returns to its caller.
\<close>

datatype context_error = StoreUnavailable

text \<open>
  Modelled from the spec: the manager's state. The Conversation Cache lists its entries
  most recently used first; the Durable Store lists the records by key. The clock is the
  time the manager reads; \<open>store_up\<close> says whether a durable write completes;
  \<open>not_yet_durable\<close> are the keys flagged for a later flush.
\<close>

record context_manager =
  cache :: "(conv_key \<times> conversation) list"
  durable :: "(conv_key \<times> conversation) list"
  clock :: int
  store_up :: bool
  not_yet_durable :: "conv_key list"

subsection \<open>Operations\<close>

text \<open>
  Modelled from the spec: the FIFO trim of invariant 2. While the sequence is longer than
  the cap, the oldest turn is dropped.
\<close>

fun fifo_trim :: "nat \<Rightarrow> 'a list \<Rightarrow> 'a list" where
  "fifo_trim cap [] = []"
| "fifo_trim cap (x # xs) = (if cap < length (x # xs) then fifo_trim cap xs else x # xs)"

text \<open>
  Modelled from the spec: a read or write of a cache entry makes it the most recent one;
  beyond \<open>cacheSize\<close> entries the least recently used are evicted (section 4.3).
\<close>

definition cache_put :: "config \<Rightarrow> conv_key \<Rightarrow> conversation \<Rightarrow>
    (conv_key \<times> conversation) list \<Rightarrow> (conv_key \<times> conversation) list" where
  "cache_put cfg k r c = take (cacheSize cfg) ((k, r) # filter (\<lambda>entry. fst entry \<noteq> k) c)"

text \<open>Modelled from the spec: the Durable Store's atomic single-document upsert.\<close>

definition store_put :: "conv_key \<Rightarrow> conversation \<Rightarrow>
    (conv_key \<times> conversation) list \<Rightarrow> (conv_key \<times> conversation) list" where
  "store_put k r s = (k, r) # filter (\<lambda>entry. fst entry \<noteq> k) s"

text \<open>Modelled from the spec: the Durable Store's delete by composite key.\<close>

definition store_delete :: "conv_key \<Rightarrow>
    (conv_key \<times> conversation) list \<Rightarrow> (conv_key \<times> conversation) list" where
  "store_delete k s = filter (\<lambda>entry. fst entry \<noteq> k) s"

text \<open>
  Modelled from the spec: the record that \<open>getHistory\<close> and \<open>appendTurn\<close> work on.
  A cache hit gives the cached record. On a miss the record is loaded from the Durable
  Store, and an empty record is created if none exists; the result says whether it was
  created.
\<close>

definition load_record :: "conv_key \<Rightarrow> context_manager \<Rightarrow> conversation \<times> bool" where
  "load_record k m =
     (case map_of (cache m) k of
        Some r \<Rightarrow> (r, False)
      | None \<Rightarrow>
          (case map_of (durable m) k of
             Some r \<Rightarrow> (r, False)
           | None \<Rightarrow> (\<lparr>turns = [], firstSeen = clock m, lastUpdated = clock m\<rparr>, True)))"

text \<open>
  Modelled from the spec: \<open>getHistory(userId, modelName)\<close> of section 4.4. The cache is
  populated (or the entry's recency refreshed); a record created on the way is written to
  the Durable Store, or flagged not yet durable when the store is down. The result is
  the ordered sequence of turns; the operation has no failure.
\<close>

definition getHistory :: "config \<Rightarrow> conv_key \<Rightarrow> context_manager \<Rightarrow> turn list \<times> context_manager" where
  "getHistory cfg k m =
     (let (r, created) = load_record k m;
          m1 = m\<lparr>cache := cache_put cfg k r (cache m)\<rparr>;
          m2 = (if created then
                  (if store_up m then m1\<lparr>durable := store_put k r (durable m)\<rparr>
                   else m1\<lparr>not_yet_durable := k # not_yet_durable m\<rparr>)
                else m1)
      in (turns r, m2))"

text \<open>
  Modelled from the spec: \<open>appendTurn(userId, modelName, turn)\<close> of section 4.4. The turn
  is appended to the in-memory record, the FIFO trim is applied, \<open>lastUpdated\<close> is
  set, and the record is written through. When the durable write cannot complete the
  call fails with \<open>StoreUnavailable\<close>; the append stays in the cache and the key is
  flagged not yet durable.
\<close>

definition appendTurn :: "config \<Rightarrow> conv_key \<Rightarrow> turn \<Rightarrow> context_manager \<Rightarrow>
    (context_error + unit) \<times> context_manager" where
  "appendTurn cfg k t m =
     (let (r, created) = load_record k m;
          r' = r\<lparr>turns := fifo_trim (maxMessages cfg) (turns r @ [t]), lastUpdated := clock m\<rparr>;
          m1 = m\<lparr>cache := cache_put cfg k r' (cache m)\<rparr>
      in if store_up m then (Inr (), m1\<lparr>durable := store_put k r' (durable m)\<rparr>)
         else (Inl StoreUnavailable, m1\<lparr>not_yet_durable := k # not_yet_durable m\<rparr>))"

text \<open>
  Modelled from the spec: \<open>resetConversation(userId, modelName)\<close> deletes the cache entry
  and the durable record.
\<close>

definition resetConversation :: "conv_key \<Rightarrow> context_manager \<Rightarrow> context_manager" where
  "resetConversation k m =
     m\<lparr>cache := store_delete k (cache m), durable := store_delete k (durable m)\<rparr>"

text \<open>Modelled from the spec: a day of the retention window, in milliseconds.\<close>

definition ms_per_day :: int where
  "ms_per_day = 86400000"

text \<open>
  Modelled from the spec: a record is eligible for deletion when its \<open>lastUpdated\<close> is
  older than \<open>cleanupDays\<close> before \<open>now\<close> (invariant 3 of the Conversation Record).
\<close>

definition eligible :: "config \<Rightarrow> int \<Rightarrow> conversation \<Rightarrow> bool" where
  "eligible cfg now r = (lastUpdated r < now - int (cleanupDays cfg) * ms_per_day)"

text \<open>
  Modelled from the spec: \<open>runCleanup(now)\<close> of section 4.4. The Durable Store is
  scanned, the eligible records are removed with their cache entries, and the number of
  records removed is returned.
\<close>

definition runCleanup :: "config \<Rightarrow> int \<Rightarrow> context_manager \<Rightarrow> nat \<times> context_manager" where
  "runCleanup cfg now m =
     (let gone = filter (\<lambda>entry. eligible cfg now (snd entry)) (durable m)
      in (length gone,
          m\<lparr>durable := filter (\<lambda>entry. \<not> eligible cfg now (snd entry)) (durable m),
            cache := filter (\<lambda>entry. fst entry \<notin> set (map fst gone)) (cache m)\<rparr>))"

text \<open>
  Modelled from the spec: the configuration the core accepts, every bound positive
  (section 6; anything else is \<open>ConfigInvalid\<close> at startup).
\<close>

definition valid_config :: "config \<Rightarrow> bool" where
  "valid_config cfg = (0 < maxMessages cfg \<and> 0 < cleanupDays cfg \<and> 0 < cacheSize cfg)"

subsection \<open>Sample inputs\<close>

definition cfg_small :: config where
  "cfg_small = \<lparr>historyEnabled = True, maxMessages = 2, cleanupDays = 30, cacheSize = 1\<rparr>"

definition turn_at :: "int \<Rightarrow> turn" where
  "turn_at n = \<lparr>role = RoleUser, content = ''hello'', timestamp = n\<rparr>"

definition manager_empty :: context_manager where
  "manager_empty = \<lparr>cache = [], durable = [], clock = 5, store_up = True, not_yet_durable = []\<rparr>"

text \<open>A conversation already at the cap of \<open>cfg_small\<close>, in the store only.\<close>

definition manager_full :: context_manager where
  "manager_full =
     \<lparr>cache = [],
      durable = [((''alice'', ''ChatGPT''),
                  \<lparr>turns = [turn_at 1, turn_at 2], firstSeen = 1, lastUpdated = 2\<rparr>)],
      clock = 3, store_up = True, not_yet_durable = []\<rparr>"

text \<open>Two records at time \<open>T\<close>: one last updated 31 days before, one a day before.\<close>

definition manager_aged :: "int \<Rightarrow> context_manager" where
  "manager_aged T =
     \<lparr>cache = [((''old'', ''ChatGPT''), \<lparr>turns = [], firstSeen = 0, lastUpdated = T - 31 * ms_per_day\<rparr>)],
      durable = [((''old'', ''ChatGPT''), \<lparr>turns = [], firstSeen = 0, lastUpdated = T - 31 * ms_per_day\<rparr>),
                 ((''new'', ''ChatGPT''), \<lparr>turns = [], firstSeen = 0, lastUpdated = T - 1 * ms_per_day\<rparr>)],
      clock = T, store_up = True, not_yet_durable = []\<rparr>"

section \<open>Properties of the connection supervisor\<close>

lemmas sample_defs =
  env_file_def env_mongo_def env_qr_fails_def env_rm_refused_def world_paired_def close_with_def
  close_with_qr_def close_no_error_qr_def

lemmas supervisor_defs =
  loggedOut_def path_join_def existsSync_def mkdirSync_def under_def remove_tree_def rmSync_def
  creds_of_def useMultiFileAuthState_def useMongoDBAuthState_def session_path_def
  connectToDatabase_def await_load_def connectToWhatsApp_def resume_def error_statusCode_def
  shouldReconnect_def qr_step_def try_body_def try_catch_def on_connection_update_def
  emit_connection_update_def stored_credential_def qr_throws_def disconnect_notification_def
  logout_notification_def purge_throws_def purged_def starts_attempt_def Let_def

subsection \<open>Filesystem calls as the program makes them\<close>

lemma map_of_remove_tree:
  "map_of (remove_tree p fsys) q = (if under p q then None else map_of fsys q)"
  unfolding remove_tree_def by (induction fsys) auto

lemma rmSync_force_recursive:
  "rmSync refused p True True fsys =
     (if existsSync p fsys \<and> refused p then Inl EPERM
      else Inr (if existsSync p fsys then remove_tree p fsys else fsys))"
  by (simp add: rmSync_def)

lemma purged_session_path: "map_of (purged e fsys) (session_path e) = None"
  by (simp add: purged_def map_of_remove_tree under_def existsSync_def)

lemma connectToDatabase_mongo:
  "MONGO_ENABLED e \<Longrightarrow> connectToDatabase e fsys = Inr (fsys, UseMongoDBAuthState)"
  by (simp add: connectToDatabase_def)

lemma connectToDatabase_file:
  "\<not> MONGO_ENABLED e \<Longrightarrow>
   connectToDatabase e fsys =
     Inr (if existsSync (session_path e) fsys then fsys else (session_path e, []) # fsys,
          UseMultiFileAuthState (session_path e))"
  by (simp add: connectToDatabase_def session_path_def mkdirSync_def Let_def)

lemma connectToWhatsApp_mongo:
  "MONGO_ENABLED e \<Longrightarrow> connectToWhatsApp e w = w\<lparr>in_flight := in_flight w @ [UseMongoDBAuthState]\<rparr>"
  by (simp add: connectToWhatsApp_def connectToDatabase_mongo)

lemma connectToWhatsApp_file:
  "\<not> MONGO_ENABLED e \<Longrightarrow>
   connectToWhatsApp e w =
     w\<lparr>fs := (if existsSync (session_path e) (fs w) then fs w else (session_path e, []) # fs w),
       in_flight := in_flight w @ [UseMultiFileAuthState (session_path e)]\<rparr>"
  by (simp add: connectToWhatsApp_def connectToDatabase_file)

lemma connectToWhatsApp_in_flight:
  "in_flight (connectToWhatsApp e w) =
     in_flight w @ [if MONGO_ENABLED e then UseMongoDBAuthState else UseMultiFileAuthState (session_path e)]"
  by (simp add: connectToWhatsApp_mongo connectToWhatsApp_file)

lemma connectToWhatsApp_frame:
  "mongo (connectToWhatsApp e w) = mongo w"
  "sockets (connectToWhatsApp e w) = sockets w"
  "terminal (connectToWhatsApp e w) = terminal w"
  "stderr (connectToWhatsApp e w) = stderr w"
  "rejections (connectToWhatsApp e w) = rejections w"
  by (cases "MONGO_ENABLED e"; simp add: connectToWhatsApp_mongo connectToWhatsApp_file)+

lemma connectToWhatsApp_terminal:
  "connectToWhatsApp e (w\<lparr>terminal := t\<rparr>) = (connectToWhatsApp e w)\<lparr>terminal := t\<rparr>"
  by (cases "MONGO_ENABLED e"; simp add: connectToWhatsApp_mongo connectToWhatsApp_file)

lemma connectToWhatsApp_keeps_dirs:
  "map_of (fs w) p = Some d \<Longrightarrow> map_of (fs (connectToWhatsApp e w)) p = Some d"
  by (cases "MONGO_ENABLED e")
    (auto simp: connectToWhatsApp_mongo connectToWhatsApp_file existsSync_def)

lemma stored_credential_connectToWhatsApp:
  "stored_credential e (connectToWhatsApp e w) = stored_credential e w"
  by (cases "MONGO_ENABLED e")
    (auto simp: stored_credential_def connectToWhatsApp_mongo connectToWhatsApp_file existsSync_def)

lemma await_new_attempt:
  "await_load (if MONGO_ENABLED e then UseMongoDBAuthState else UseMultiFileAuthState (session_path e))
     (connectToWhatsApp e w) = Inr (creds_of (stored_credential e w))"
  by (cases "MONGO_ENABLED e")
    (auto simp: stored_credential_def connectToWhatsApp_mongo connectToWhatsApp_file existsSync_def
       await_load_def useMultiFileAuthState_def useMongoDBAuthState_def creds_of_def
       split: option.splits)

lemma frame_terminal:
  "await_load l (w\<lparr>terminal := t\<rparr>) = await_load l w"
  "stored_credential e (w\<lparr>terminal := t\<rparr>) = stored_credential e w"
  "purge_throws e (w\<lparr>terminal := t\<rparr>) = purge_throws e w"
  by (simp_all add: await_load_def stored_credential_def purge_throws_def split: auth_load.splits)

subsection \<open>The try statement\<close>

lemma logout_has_error: "\<not> shouldReconnect ld \<Longrightarrow> error ld \<noteq> None"
  by (auto simp: shouldReconnect_def error_statusCode_def split: option.splits)

lemma shouldReconnect_fields:
  "shouldReconnect ld =
     (\<not> (\<exists>b out. error ld = Some b \<and> output' b = Some out \<and> statusCode out = Some loggedOut))"
  by (auto simp: shouldReconnect_def error_statusCode_def split: option.splits)

lemma try_body_close:
  "connection u = Some ConnClose \<Longrightarrow> lastDisconnect u = Some ld \<Longrightarrow>
   try_body e u w =
     (if shouldReconnect ld then Inr (connectToWhatsApp e w)
      else if purge_throws e w then Inl EPERM
      else Inr (connectToWhatsApp e (w\<lparr>fs := purged e (fs w)\<rparr>)))"
  by (simp add: try_body_def rmSync_force_recursive logout_has_error session_path_def Let_def
      purge_throws_def purged_def)

lemma try_catch_close:
  "connection u = Some ConnClose \<Longrightarrow> lastDisconnect u = Some ld \<Longrightarrow>
   try_catch e u w =
     (if shouldReconnect ld then connectToWhatsApp e w
      else if purge_throws e w then w\<lparr>stderr := ''Error handling connection update:'' # stderr w\<rparr>
      else connectToWhatsApp e (w\<lparr>fs := purged e (fs w)\<rparr>))"
  by (simp add: try_catch_def try_body_close)

lemma try_catch_other:
  "\<not> disconnect_notification u \<Longrightarrow> try_catch e u w = w"
  by (auto simp: try_catch_def try_body_def disconnect_notification_def split: option.splits)

lemma try_catch_terminal:
  "try_catch e u (w\<lparr>terminal := t\<rparr>) = (try_catch e u w)\<lparr>terminal := t\<rparr>"
proof (cases "disconnect_notification u")
  case True
  then obtain ld where "connection u = Some ConnClose" "lastDisconnect u = Some ld"
    by (auto simp: disconnect_notification_def)
  then show ?thesis
    by (cases "MONGO_ENABLED e")
       (simp_all add: try_catch_close connectToWhatsApp_mongo connectToWhatsApp_file frame_terminal)
next
  case False
  then show ?thesis by (simp add: try_catch_other)
qed

lemma qr_step_cases:
  "qr_step e u w =
     (if qr_throws e u then Inl QrcodeError
      else Inr (case qr u of None \<Rightarrow> w | Some q \<Rightarrow> if q = [] then w else w\<lparr>terminal := q # terminal w\<rparr>))"
  by (auto simp: qr_step_def qr_throws_def split: option.splits)

lemma on_connection_update_cases:
  "on_connection_update e u w =
     (if qr_throws e u then Inl QrcodeError
      else Inr ((try_catch e u w)
                 \<lparr>terminal := (case qr u of None \<Rightarrow> terminal w
                                | Some q \<Rightarrow> if q = [] then terminal w else q # terminal w)\<rparr>))"
proof -
  have same: "(try_catch e u w)\<lparr>terminal := terminal w\<rparr> = try_catch e u w"
    using try_catch_terminal [where w = w and t = "terminal w"] by simp
  show ?thesis
    by (auto simp: on_connection_update_def qr_step_cases try_catch_terminal same split: option.splits)
qed

lemma emit_cases:
  "emit_connection_update e w u =
     (if qr_throws e u then w\<lparr>rejections := QrcodeError # rejections w\<rparr>
      else (try_catch e u w)
             \<lparr>terminal := (case qr u of None \<Rightarrow> terminal w
                            | Some q \<Rightarrow> if q = [] then terminal w else q # terminal w)\<rparr>)"
  by (simp add: emit_connection_update_def on_connection_update_cases)

lemma try_catch_in_flight:
  "length (in_flight (try_catch e u w)) =
     length (in_flight w) +
     (if disconnect_notification u \<and> \<not> (logout_notification u \<and> purge_throws e w) then 1 else 0)"
proof (cases "disconnect_notification u")
  case True
  then obtain ld where "connection u = Some ConnClose" "lastDisconnect u = Some ld"
    by (auto simp: disconnect_notification_def)
  then show ?thesis
    using True by (simp add: try_catch_close connectToWhatsApp_in_flight logout_notification_def)
next
  case False
  then show ?thesis by (simp add: try_catch_other)
qed

lemma emit_in_flight:
  "length (in_flight (emit_connection_update e w u)) =
     length (in_flight w) + (if starts_attempt e w u then 1 else 0)"
  by (simp add: emit_cases try_catch_in_flight starts_attempt_def)

lemma listener_keeps_mongo: "mongo (emit_connection_update e w u) = mongo w"
proof (cases "disconnect_notification u")
  case True
  then obtain ld where "connection u = Some ConnClose" "lastDisconnect u = Some ld"
    by (auto simp: disconnect_notification_def)
  then show ?thesis
    by (simp add: emit_cases try_catch_close connectToWhatsApp_frame)
next
  case False
  then show ?thesis
    by (simp add: emit_cases try_catch_other)
qed

lemma emit_terminal:
  "\<not> qr_throws e u \<Longrightarrow> \<exists>t. emit_connection_update e w u = (try_catch e u w)\<lparr>terminal := t\<rparr>"
  by (auto simp: emit_cases)

lemma attempts_started_Cons:
  "attempts_started e w (u # us) =
     (if starts_attempt e w u then 1 else 0) + attempts_started e (emit_connection_update e w u) us"
  by (simp add: emit_connection_update_def)

lemma attempts_started_never_refused:
  "\<forall>p. \<not> rm_refused e p \<Longrightarrow>
   attempts_started e w us = length (filter (\<lambda>u. disconnect_notification u \<and> \<not> qr_throws e u) us)"
  by (induction us arbitrary: w)
     (simp_all add: attempts_started_Cons starts_attempt_def purge_throws_def del: attempts_started.simps(2))

lemma fold_in_flight:
  "length (in_flight (foldl (emit_connection_update e) w us)) =
     length (in_flight w) + attempts_started e w us"
  by (induction us arbitrary: w)
     (simp_all add: attempts_started_Cons emit_in_flight del: attempts_started.simps(2))

subsection \<open>Reconnect policy\<close>

text \<open>
  C1 as stated fails. The QR step of lines 45-47 stands before the \<open>try\<close>. A \<open>close\<close>
  update whose \<open>lastDisconnect\<close> has no error is recoverable, yet when it also carries a
  \<open>qr\<close> on which the renderer throws, the listener is rejected and starts no attempt.
\<close>

theorem recoverable_close_with_failing_qr_starts_nothing:
  "connection close_no_error_qr = Some ConnClose \<and>
   lastDisconnect close_no_error_qr = Some \<lparr>error = None\<rparr> \<and>
   shouldReconnect \<lparr>error = None\<rparr> \<and>
   emit_connection_update env_qr_fails world_paired close_no_error_qr =
     world_paired\<lparr>rejections := [QrcodeError]\<rparr> \<and>
   in_flight (emit_connection_update env_qr_fails world_paired close_no_error_qr) = []"
  by (simp add: sample_defs supervisor_defs)

text \<open>
  C1, amended. Take a \<open>close\<close> update that carries \<open>lastDisconnect\<close> and whose QR step
  does not throw, delivered to the listener. The reason is recoverable exactly when the
  error, its output and the status code are not all there with the code \<open>loggedOut\<close>. On
  a recoverable reason the listener does the call of \<open>connectToWhatsApp\<close> and nothing else
  but the QR print: one more connection attempt is in flight, and when it resumes it
  loads the credential that the store held before the update. The store still holds
  that credential, the Mongo document is as it was, no directory of the filesystem has
  lost anything, and nothing is logged or rejected.
\<close>

theorem listener_reconnects_on_recoverable_close:
  assumes "connection u = Some ConnClose" and "lastDisconnect u = Some ld"
    and "\<not> qr_throws e u"
  shows "shouldReconnect ld =
           (\<not> (\<exists>b out. error ld = Some b \<and> output' b = Some out \<and> statusCode out = Some loggedOut)) \<and>
         (shouldReconnect ld \<longrightarrow>
            (\<exists>t. emit_connection_update e w u = (connectToWhatsApp e w)\<lparr>terminal := t\<rparr>) \<and>
            (\<exists>l. in_flight (emit_connection_update e w u) = in_flight w @ [l] \<and>
                 await_load l (emit_connection_update e w u) = Inr (creds_of (stored_credential e w))) \<and>
            stored_credential e (emit_connection_update e w u) = stored_credential e w \<and>
            mongo (emit_connection_update e w u) = mongo w \<and>
            (\<forall>p d. map_of (fs w) p = Some d \<longrightarrow>
                   map_of (fs (emit_connection_update e w u)) p = Some d) \<and>
            stderr (emit_connection_update e w u) = stderr w \<and>
            rejections (emit_connection_update e w u) = rejections w)"
proof -
  obtain t where "emit_connection_update e w u = (try_catch e u w)\<lparr>terminal := t\<rparr>"
    using assms(3) emit_terminal by blast
  then have "emit_connection_update e w u = (connectToWhatsApp e w)\<lparr>terminal := t\<rparr>"
    if "shouldReconnect ld"
    using assms that by (simp add: try_catch_close)
  then show ?thesis
    using shouldReconnect_fields [of ld]
    by (auto simp: connectToWhatsApp_in_flight await_new_attempt stored_credential_connectToWhatsApp
        connectToWhatsApp_frame connectToWhatsApp_keeps_dirs frame_terminal)
qed

theorem listener_reconnects_on_recoverable_close_witness:
  "connection (close_with 428) = Some ConnClose \<and>
   \<not> qr_throws env_file (close_with 428) \<and>
   shouldReconnect \<lparr>error = Some \<lparr>output' = Some \<lparr>statusCode = Some 428\<rparr>\<rparr>\<rparr> \<and>
   \<not> shouldReconnect \<lparr>error = Some \<lparr>output' = Some \<lparr>statusCode = Some 401\<rparr>\<rparr>\<rparr> \<and>
   shouldReconnect \<lparr>error = None\<rparr> \<and>
   emit_connection_update env_file world_paired (close_with 428) =
     world_paired\<lparr>in_flight := [UseMultiFileAuthState ''/app/session'']\<rparr> \<and>
   emit_connection_update env_file world_paired close_no_error_qr =
     world_paired\<lparr>in_flight := [UseMultiFileAuthState ''/app/session''], terminal := [''2@ref'']\<rparr> \<and>
   stored_credential env_file (emit_connection_update env_file world_paired (close_with 428)) = Some ''k1'' \<and>
   resume (emit_connection_update env_file world_paired (close_with 428)) =
     world_paired\<lparr>sockets := [StoredCreds ''k1'', StoredCreds ''k1'']\<rparr>"
  using listener_reconnects_on_recoverable_close
    [of "close_with 428" "\<lparr>error = Some \<lparr>output' = Some \<lparr>statusCode = Some 428\<rparr>\<rparr>\<rparr>"
        env_file world_paired]
    listener_reconnects_on_recoverable_close
    [of "close_with 401" "\<lparr>error = Some \<lparr>output' = Some \<lparr>statusCode = Some 401\<rparr>\<rparr>\<rparr>"
        env_file world_paired]
    listener_reconnects_on_recoverable_close
    [of close_no_error_qr "\<lparr>error = None\<rparr>" env_file world_paired]
  by (simp add: sample_defs supervisor_defs)

text \<open>
  C2, at the input where the code departs from it: Mongo is the session store, it holds
  the credential \<open>k1\<close>, and the update is a \<open>close\<close> with the status \<open>loggedOut\<close>. The
  listener removes the session directory of the file store and starts an attempt; the
  Mongo document is untouched, and the resumed attempt gives the new socket the revoked
  credential. With the file store the same update ends in a socket with blank credentials.
\<close>

theorem logout_leaves_mongo_credential:
  "emit_connection_update env_mongo world_paired (close_with 401) =
     world_paired\<lparr>fs := [], in_flight := [UseMongoDBAuthState]\<rparr> \<and>
   mongo (emit_connection_update env_mongo world_paired (close_with 401)) = Some ''k1'' \<and>
   resume (emit_connection_update env_mongo world_paired (close_with 401)) =
     world_paired\<lparr>fs := [], sockets := [StoredCreds ''k1'', StoredCreds ''k1'']\<rparr> \<and>
   resume (emit_connection_update env_file world_paired (close_with 401)) =
     world_paired\<lparr>fs := [(''/app/session'', [])], sockets := [InitAuthCreds, StoredCreds ''k1'']\<rparr>"
  by (simp add: sample_defs supervisor_defs)

text \<open>
  C3 as stated fails. With one listener call per notification, the first \<open>close\<close> update
  leaves one attempt in flight and the second, delivered while that attempt is still in
  flight, adds another.
\<close>

theorem two_notifications_start_two_attempts:
  "in_flight (emit_connection_update env_file world_paired (close_with 428)) =
     [UseMultiFileAuthState ''/app/session''] \<and>
   in_flight (emit_connection_update env_file
       (emit_connection_update env_file world_paired (close_with 428)) (close_with 428)) =
     [UseMultiFileAuthState ''/app/session'', UseMultiFileAuthState ''/app/session'']"
  by (simp add: sample_defs supervisor_defs)

text \<open>
  C3, amended. The listener keeps no guard. An update starts one more attempt exactly when
  it is a disconnect notification whose QR step does not throw and whose removal of the
  session directory, on a logout, does not throw; the attempts already in flight have no
  part in it. After any sequence of updates the attempts in flight have grown by the
  number of updates that started one; where the operating system refuses no removal,
  that is the number of disconnect notifications whose QR step does not throw.
\<close>

theorem every_notification_starts_an_attempt:
  "length (in_flight (emit_connection_update e w u)) =
     length (in_flight w) + (if starts_attempt e w u then 1 else 0) \<and>
   starts_attempt e (w\<lparr>in_flight := a\<rparr>) u = starts_attempt e w u \<and>
   length (in_flight (foldl (emit_connection_update e) w us)) =
     length (in_flight w) + attempts_started e w us \<and>
   ((\<forall>p. \<not> rm_refused e p) \<longrightarrow>
      length (in_flight (foldl (emit_connection_update e) w us)) =
        length (in_flight w) +
        length (filter (\<lambda>u. disconnect_notification u \<and> \<not> qr_throws e u) us))"
  using attempts_started_never_refused [of e w us]
  by (simp add: emit_in_flight fold_in_flight starts_attempt_def purge_throws_def)

theorem every_notification_starts_an_attempt_witness:
  "(\<forall>p. \<not> rm_refused env_file p) \<and>
   starts_attempt env_file world_paired (close_with 428) \<and>
   starts_attempt env_file world_paired (close_with 401) \<and>
   \<not> starts_attempt env_rm_refused world_paired (close_with 401) \<and>
   length (in_flight (foldl (emit_connection_update env_file) world_paired
             [close_with 428, close_with 401, close_with 428])) = 3"
  using every_notification_starts_an_attempt
    [of env_file world_paired "close_with 428" "[]" "[close_with 428, close_with 401, close_with 428]"]
  by (simp add: sample_defs supervisor_defs)

text \<open>
  C8 as stated fails. The QR step stands before the \<open>try\<close>: when the renderer throws on
  a \<open>close\<close> update that also carries a \<open>qr\<close>, the listener is rejected and no attempt is
  started, although the try statement alone would have started one.
\<close>

theorem qr_failure_skips_reconnect:
  "on_connection_update env_qr_fails close_with_qr world_paired = Inl QrcodeError \<and>
   in_flight (emit_connection_update env_qr_fails world_paired close_with_qr) = [] \<and>
   in_flight (try_catch env_qr_fails close_with_qr world_paired) =
     [UseMultiFileAuthState ''/app/session'']"
  by (simp add: sample_defs supervisor_defs)

text \<open>
  C8, amended. A throw of the QR step rejects the listener before the classification:
  the world is left as it was, but for the unhandled rejection. When the QR step does
  not throw, the listener leaves the world that the try statement alone leaves, up to
  the terminal output.
\<close>

theorem listener_runs_try_unless_qr_throws:
  "(qr_throws e u \<longrightarrow>
      on_connection_update e u w = Inl QrcodeError \<and>
      emit_connection_update e w u = w\<lparr>rejections := QrcodeError # rejections w\<rparr>) \<and>
   (\<not> qr_throws e u \<longrightarrow>
      (\<exists>t. on_connection_update e u w = Inr ((try_catch e u w)\<lparr>terminal := t\<rparr>)))"
  by (auto simp: emit_connection_update_def on_connection_update_cases)

theorem listener_runs_try_unless_qr_throws_witness:
  "qr_throws env_qr_fails close_with_qr \<and>
   emit_connection_update env_qr_fails world_paired close_with_qr =
     world_paired\<lparr>rejections := [QrcodeError]\<rparr> \<and>
   \<not> qr_throws env_file close_with_qr \<and>
   on_connection_update env_file close_with_qr world_paired =
     Inr (world_paired\<lparr>in_flight := [UseMultiFileAuthState ''/app/session''],
                        terminal := [''2@pairing'']\<rparr>)"
  using listener_runs_try_unless_qr_throws [of env_qr_fails close_with_qr world_paired]
    listener_runs_try_unless_qr_throws [of env_file close_with_qr world_paired]
  by (simp add: sample_defs supervisor_defs)

text \<open>
  C9 as stated fails. On a logout the session directory is removed at line 59, inside the
  \<open>try\<close>. When the directory exists and the operating system refuses the removal,
  \<open>rmSync\<close> throws, the catch of lines 66-68 logs the error, and line 60 is never
  reached: the update carries a payload and no attempt is started.
\<close>

theorem logout_with_refused_removal_gives_up:
  "connection (close_with 401) = Some ConnClose \<and>
   lastDisconnect (close_with 401) = Some \<lparr>error = Some \<lparr>output' = Some \<lparr>statusCode = Some 401\<rparr>\<rparr>\<rparr> \<and>
   \<not> qr_throws env_rm_refused (close_with 401) \<and>
   emit_connection_update env_rm_refused world_paired (close_with 401) =
     world_paired\<lparr>stderr := [''Error handling connection update:'']\<rparr> \<and>
   in_flight (emit_connection_update env_rm_refused world_paired (close_with 401)) = []"
  by (simp add: sample_defs supervisor_defs)

text \<open>
  C9, amended. For a \<open>close\<close> update delivered to the listener, no attempt is started in
  exactly three cases: the QR step throws, the update carries no \<open>lastDisconnect\<close>, or the
  reason is a logout and the removal of the session directory throws. When the QR step
  throws the listener is rejected. Otherwise, without the payload the world is left as
  it was, up to the QR print. With a reason other than \<open>loggedOut\<close> the listener does the
  call of \<open>connectToWhatsApp\<close> and keeps the stored credential. A \<open>loggedOut\<close> reason has
  an error, so the guard of line 57 holds; if the removal throws, the error is logged and
  nothing else happens; if not, the session directory is removed with all under it and
  \<open>connectToWhatsApp\<close> is called, after which the directory is missing (Mongo store) or
  empty (file store).
\<close>

theorem listener_on_close_update:
  assumes "connection u = Some ConnClose"
  shows "(in_flight (emit_connection_update e w u) = in_flight w) =
           (qr_throws e u \<or> lastDisconnect u = None \<or> (logout_notification u \<and> purge_throws e w)) \<and>
    (if qr_throws e u then
       emit_connection_update e w u = w\<lparr>rejections := QrcodeError # rejections w\<rparr>
     else
       (case lastDisconnect u of
          None \<Rightarrow> (\<exists>t. emit_connection_update e w u = w\<lparr>terminal := t\<rparr>)
        | Some ld \<Rightarrow>
            if shouldReconnect ld then
              (\<exists>t. emit_connection_update e w u = (connectToWhatsApp e w)\<lparr>terminal := t\<rparr>) \<and>
              (\<exists>l. in_flight (emit_connection_update e w u) = in_flight w @ [l]) \<and>
              stored_credential e (emit_connection_update e w u) = stored_credential e w
            else
              error ld \<noteq> None \<and>
              (if purge_throws e w then
                 (\<exists>t. emit_connection_update e w u =
                        w\<lparr>stderr := ''Error handling connection update:'' # stderr w,
                          terminal := t\<rparr>)
               else
                 (\<exists>t. emit_connection_update e w u =
                        (connectToWhatsApp e (w\<lparr>fs := purged e (fs w)\<rparr>))\<lparr>terminal := t\<rparr>) \<and>
                 (\<exists>l. in_flight (emit_connection_update e w u) = in_flight w @ [l]) \<and>
                 stderr (emit_connection_update e w u) = stderr w \<and>
                 map_of (fs (emit_connection_update e w u)) (session_path e) =
                   (if MONGO_ENABLED e then None else Some []))))"
proof (cases "qr_throws e u")
  case True
  then show ?thesis by (simp add: emit_cases)
next
  case noqr: False
  then obtain t where t: "emit_connection_update e w u = (try_catch e u w)\<lparr>terminal := t\<rparr>"
    using emit_terminal by blast
  show ?thesis
  proof (cases "lastDisconnect u")
    case None
    then have "try_catch e u w = w"
      by (simp add: try_catch_other disconnect_notification_def)
    with None noqr t show ?thesis by auto
  next
    case (Some ld)
    have logout: "logout_notification u = (\<not> shouldReconnect ld)"
      using assms Some by (simp add: logout_notification_def)
    have after: "map_of (fs (connectToWhatsApp e (w\<lparr>fs := purged e (fs w)\<rparr>))) (session_path e) =
        (if MONGO_ENABLED e then None else Some [])"
      by (simp add: connectToWhatsApp_mongo connectToWhatsApp_file existsSync_def purged_session_path)
    show ?thesis
      using assms Some noqr t logout after
      by (auto simp: try_catch_close connectToWhatsApp_in_flight connectToWhatsApp_frame
          stored_credential_connectToWhatsApp logout_has_error frame_terminal)
  qed
qed

theorem listener_on_close_update_witness:
  "connection (close_with 401) = Some ConnClose \<and>
   \<not> shouldReconnect \<lparr>error = Some \<lparr>output' = Some \<lparr>statusCode = Some 401\<rparr>\<rparr>\<rparr> \<and>
   \<not> purge_throws env_file world_paired \<and>
   emit_connection_update env_file world_paired (close_with 401) =
     world_paired\<lparr>fs := [(''/app/session'', [])], in_flight := [UseMultiFileAuthState ''/app/session'']\<rparr> \<and>
   emit_connection_update env_file world_paired (close_with 428) =
     world_paired\<lparr>in_flight := [UseMultiFileAuthState ''/app/session'']\<rparr> \<and>
   emit_connection_update env_file world_paired
       \<lparr>connection = Some ConnClose, lastDisconnect = None, qr = None\<rparr> = world_paired \<and>
   purge_throws env_rm_refused world_paired \<and>
   emit_connection_update env_rm_refused world_paired (close_with 401) =
     world_paired\<lparr>stderr := [''Error handling connection update:'']\<rparr> \<and>
   qr_throws env_qr_fails close_with_qr \<and>
   emit_connection_update env_qr_fails world_paired close_with_qr =
     world_paired\<lparr>rejections := [QrcodeError]\<rparr>"
  using listener_on_close_update [of "close_with 401" env_file world_paired]
    listener_on_close_update [of "close_with 428" env_file world_paired]
    listener_on_close_update
      [of "\<lparr>connection = Some ConnClose, lastDisconnect = None, qr = None\<rparr>" env_file world_paired]
    listener_on_close_update [of "close_with 401" env_rm_refused world_paired]
    listener_on_close_update [of close_with_qr env_qr_fails world_paired]
  by (simp add: sample_defs supervisor_defs)

subsection \<open>Choice of the session store\<close>

text \<open>
  C10. \<open>connectToDatabase\<close> never throws and picks the load by \<open>MONGO_ENABLED\<close> alone.
  With the flag it returns the Mongo load and the filesystem as it was. Without it, it
  returns the file load of the session path; the filesystem is as it was when the
  directory existed and has the new, empty directory otherwise, so the directory exists
  when the load runs and the load does not fail on it.
\<close>

theorem session_store_selected_by_flag:
  "(MONGO_ENABLED e \<longrightarrow> connectToDatabase e fsys = Inr (fsys, UseMongoDBAuthState)) \<and>
   (\<not> MONGO_ENABLED e \<longrightarrow>
      (\<exists>fsys'. connectToDatabase e fsys = Inr (fsys', UseMultiFileAuthState (session_path e)) \<and>
         fsys' = (if existsSync (session_path e) fsys then fsys else (session_path e, []) # fsys) \<and>
         existsSync (session_path e) fsys' \<and>
         (\<exists>c. useMultiFileAuthState (session_path e) fsys' = Inr c)))"
  by (auto simp: connectToDatabase_mongo connectToDatabase_file existsSync_def
      useMultiFileAuthState_def split: option.splits)

theorem session_store_selected_by_flag_witness:
  "MONGO_ENABLED env_mongo \<and>
   connectToDatabase env_mongo [] = Inr ([], UseMongoDBAuthState) \<and>
   \<not> MONGO_ENABLED env_file \<and>
   connectToDatabase env_file [] = Inr ([(''/app/session'', [])], UseMultiFileAuthState ''/app/session'') \<and>
   \<not> existsSync ''/app/session'' [] \<and>
   useMultiFileAuthState ''/app/session'' [(''/app/session'', [])] = Inr InitAuthCreds"
  using session_store_selected_by_flag [of env_mongo "[]"]
    session_store_selected_by_flag [of env_file "[]"]
  by (simp add: sample_defs supervisor_defs)

subsection \<open>Suspended loads\<close>

text \<open>
  The directory made by \<open>connectToDatabase\<close> is still there when the load resumes,
  whatever updates the listener handles in between: the logout branch removes it and
  makes it again in the same turn, or leaves it when the removal throws. So no suspended
  load fails, and the only rejections ever recorded are those of the QR step.
\<close>

lemma loads_ready_connect:
  "set (in_flight w) \<subseteq> {env_load e} \<Longrightarrow> loads_ready e (connectToWhatsApp e w)"
  by (cases "MONGO_ENABLED e")
     (auto simp: loads_ready_def env_load_def connectToWhatsApp_mongo connectToWhatsApp_file
       existsSync_def)

lemma loads_ready_frame:
  "loads_ready e (w\<lparr>terminal := t\<rparr>) = loads_ready e w"
  "loads_ready e (w\<lparr>rejections := r\<rparr>) = loads_ready e w"
  "loads_ready e (w\<lparr>stderr := s\<rparr>) = loads_ready e w"
  by (simp_all add: loads_ready_def)

lemma loads_ready_try_catch:
  assumes "loads_ready e w"
  shows "loads_ready e (try_catch e u w)"
proof (cases "disconnect_notification u")
  case True
  then obtain ld where "connection u = Some ConnClose" "lastDisconnect u = Some ld"
    by (auto simp: disconnect_notification_def)
  moreover have "set (in_flight w) \<subseteq> {env_load e}"
    using assms by (simp add: loads_ready_def)
  ultimately show ?thesis
    using assms by (simp add: try_catch_close loads_ready_connect loads_ready_frame)
next
  case False
  then show ?thesis using assms by (simp add: try_catch_other)
qed

lemma loads_ready_emit:
  "loads_ready e w \<Longrightarrow> loads_ready e (emit_connection_update e w u)"
  by (simp add: emit_cases loads_ready_frame loads_ready_try_catch)

lemma rejections_try_catch: "rejections (try_catch e u w) = rejections w"
proof (cases "disconnect_notification u")
  case True
  then obtain ld where "connection u = Some ConnClose" "lastDisconnect u = Some ld"
    by (auto simp: disconnect_notification_def)
  then show ?thesis
    by (simp add: try_catch_close connectToWhatsApp_frame)
next
  case False
  then show ?thesis by (simp add: try_catch_other)
qed

lemma rejections_emit:
  "set (rejections (emit_connection_update e w u)) \<subseteq> insert QrcodeError (set (rejections w))"
  by (auto simp: emit_cases rejections_try_catch)

lemma resume_ready:
  assumes "loads_ready e w"
  shows "loads_ready e (resume w) \<and> rejections (resume w) = rejections w"
proof (cases "in_flight w")
  case Nil
  then show ?thesis using assms by (simp add: resume_def)
next
  case (Cons l rest)
  with assms have l: "l = env_load e" and rest: "set rest \<subseteq> {env_load e}"
    and dir: "MONGO_ENABLED e \<or> existsSync (session_path e) (fs w)"
    by (auto simp: loads_ready_def)
  have "\<exists>c. await_load l w = Inr c"
    using l dir
    by (cases "MONGO_ENABLED e")
       (auto simp: await_load_def env_load_def useMultiFileAuthState_def existsSync_def)
  then obtain c where "await_load l w = Inr c" ..
  then show ?thesis
    using Cons rest dir by (auto simp: resume_def loads_ready_def)
qed

lemma suspended_loads_never_fail:
  assumes "loads_ready e w"
  shows "loads_ready e (foldl (run_turn e) w ts) \<and>
         set (rejections (foldl (run_turn e) w ts)) \<subseteq> insert QrcodeError (set (rejections w))"
  using assms
proof (induction ts arbitrary: w)
  case Nil
  then show ?case by auto
next
  case (Cons t ts)
  have ready: "loads_ready e (run_turn e w t)"
    using Cons.prems by (cases t) (simp_all add: run_turn_def loads_ready_emit resume_ready)
  have rej: "set (rejections (run_turn e w t)) \<subseteq> insert QrcodeError (set (rejections w))"
    using Cons.prems rejections_emit [of e w] by (cases t) (auto simp: run_turn_def resume_ready)
  from Cons.IH [OF ready] rej show ?case by auto
qed

section \<open>Properties of the context manager\<close>

lemmas manager_defs =
  fifo_trim.simps cache_put_def store_put_def store_delete_def load_record_def getHistory_def
  appendTurn_def resetConversation_def ms_per_day_def eligible_def runCleanup_def
  valid_config_def Let_def

lemmas manager_samples =
  cfg_small_def turn_at_def manager_empty_def manager_full_def manager_aged_def

lemma fifo_trim_drop: "fifo_trim cap xs = drop (length xs - cap) xs"
proof (induction xs)
  case Nil
  then show ?case by simp
next
  case (Cons x xs)
  show ?case
  proof (cases "cap < length (x # xs)")
    case True
    then have "length (x # xs) - cap = Suc (length xs - cap)" by simp
    with True Cons show ?thesis by simp
  next
    case False
    then show ?thesis by simp
  qed
qed

lemma fifo_trim_length: "length (fifo_trim cap xs) = min cap (length xs)"
  by (simp add: fifo_trim_drop)

lemma fifo_trim_suffix: "suffix (fifo_trim cap xs) xs"
  by (simp add: fifo_trim_drop suffix_drop)

lemma fifo_trim_last: "0 < cap \<Longrightarrow> last (fifo_trim cap (xs @ [x])) = x"
  by (simp add: fifo_trim_drop)

lemma fifo_trim_dropped:
  "fifo_trim cap xs = drop (length xs - cap) xs \<and> take (length xs - cap) xs @ fifo_trim cap xs = xs"
  by (simp add: fifo_trim_drop)

lemma cache_put_hit: "0 < cacheSize cfg \<Longrightarrow> map_of (cache_put cfg k r c) k = Some r"
  by (cases "cacheSize cfg") (simp_all add: cache_put_def)

lemma store_put_hit: "map_of (store_put k r s) k = Some r"
  by (simp add: store_put_def)

lemma appendTurn_cache:
  "0 < cacheSize cfg \<Longrightarrow>
   map_of (cache (snd (appendTurn cfg k t m))) k =
     Some ((fst (load_record k m))
            \<lparr>turns := fifo_trim (maxMessages cfg) (turns (fst (load_record k m)) @ [t]),
              lastUpdated := clock m\<rparr>)"
  by (simp add: appendTurn_def cache_put_hit Let_def split: prod.splits)

lemma appendTurn_durable:
  "store_up m \<Longrightarrow>
   fst (appendTurn cfg k t m) = Inr () \<and>
   map_of (durable (snd (appendTurn cfg k t m))) k =
     Some ((fst (load_record k m))
            \<lparr>turns := fifo_trim (maxMessages cfg) (turns (fst (load_record k m)) @ [t]),
              lastUpdated := clock m\<rparr>)"
  by (simp add: appendTurn_def store_put_hit Let_def split: prod.splits)

lemma appendTurn_store_down:
  "\<not> store_up m \<Longrightarrow>
   fst (appendTurn cfg k t m) = Inl StoreUnavailable \<and>
   durable (snd (appendTurn cfg k t m)) = durable m \<and>
   k \<in> set (not_yet_durable (snd (appendTurn cfg k t m)))"
  by (simp add: appendTurn_def Let_def split: prod.splits)

lemma getHistory_turns: "fst (getHistory cfg k m) = turns (fst (load_record k m))"
  by (simp add: getHistory_def Let_def split: prod.splits)

lemma load_record_cached: "map_of (cache m) k = Some r \<Longrightarrow> load_record k m = (r, False)"
  by (simp add: load_record_def)

subsection \<open>Trim invariant\<close>

text \<open>
  C4. Under a valid configuration, after \<open>appendTurn\<close> the cache holds a record for the
  key; its turns are at most \<open>maxMessages\<close>, they are a suffix of the history before the
  call followed by the new turn (so what was dropped is the oldest turns), their number is
  the smaller of \<open>maxMessages\<close> and the old length plus one, and the last of them is the
  new turn. \<open>getHistory\<close> after the call returns these turns, and when the store is up
  the durable record is the same record.
\<close>

theorem appendTurn_keeps_most_recent_turns:
  assumes "valid_config cfg"
  shows "\<exists>r'. map_of (cache (snd (appendTurn cfg k t m))) k = Some r' \<and>
           length (turns r') \<le> maxMessages cfg \<and>
           length (turns r') = min (maxMessages cfg) (Suc (length (fst (getHistory cfg k m)))) \<and>
           suffix (turns r') (fst (getHistory cfg k m) @ [t]) \<and>
           last (turns r') = t \<and>
           fst (getHistory cfg k (snd (appendTurn cfg k t m))) = turns r' \<and>
           (store_up m \<longrightarrow> map_of (durable (snd (appendTurn cfg k t m))) k = Some r')"
proof -
  let ?r = "fst (load_record k m)"
  let ?r' = "?r\<lparr>turns := fifo_trim (maxMessages cfg) (turns ?r @ [t]), lastUpdated := clock m\<rparr>"
  from assms have pos: "0 < maxMessages cfg" "0 < cacheSize cfg"
    by (simp_all add: valid_config_def)
  have trimmed: "turns ?r' = fifo_trim (maxMessages cfg) (turns ?r @ [t])"
    by simp
  have cached: "map_of (cache (snd (appendTurn cfg k t m))) k = Some ?r'"
    using pos by (simp add: appendTurn_cache)
  have "fst (getHistory cfg k (snd (appendTurn cfg k t m))) = turns ?r'"
    using cached by (simp add: getHistory_turns load_record_cached)
  moreover have "length (turns ?r') \<le> maxMessages cfg"
    by (simp add: fifo_trim_length)
  moreover have "length (turns ?r') = min (maxMessages cfg) (Suc (length (fst (getHistory cfg k m))))"
    by (simp add: fifo_trim_length getHistory_turns)
  moreover have "suffix (turns ?r') (fst (getHistory cfg k m) @ [t])"
    unfolding trimmed getHistory_turns by (rule fifo_trim_suffix)
  moreover have "last (turns ?r') = t"
    using pos by (simp add: fifo_trim_last)
  moreover have "store_up m \<longrightarrow> map_of (durable (snd (appendTurn cfg k t m))) k = Some ?r'"
    by (simp add: appendTurn_durable)
  ultimately show ?thesis
    using cached by blast
qed

theorem appendTurn_keeps_most_recent_turns_witness:
  "valid_config cfg_small \<and>
   fst (getHistory cfg_small (''alice'', ''ChatGPT'') manager_full) = [turn_at 1, turn_at 2] \<and>
   fst (getHistory cfg_small (''alice'', ''ChatGPT'')
          (snd (appendTurn cfg_small (''alice'', ''ChatGPT'') (turn_at 3) manager_full))) =
     [turn_at 2, turn_at 3] \<and>
   map_of (durable (snd (appendTurn cfg_small (''alice'', ''ChatGPT'') (turn_at 3) manager_full)))
       (''alice'', ''ChatGPT'') =
     Some \<lparr>turns = [turn_at 2, turn_at 3], firstSeen = 1, lastUpdated = 3\<rparr>"
  using appendTurn_keeps_most_recent_turns
    [of cfg_small "(''alice'', ''ChatGPT'')" "turn_at 3" manager_full]
  by (simp add: manager_defs manager_samples)

subsection \<open>Absent conversations\<close>

text \<open>
  C5. \<open>getHistory\<close> returns a sequence for every pair and every state: the turns of the
  cached record, else of the durable record, else the empty sequence. When neither the
  cache nor the store has a record for the pair, the result is empty, the cache is
  populated with an empty record (when it has room for one entry), and the empty record
  is created in the store, or the key is flagged when the store is down.
\<close>

theorem getHistory_absent_is_empty:
  "fst (getHistory cfg k m) =
     (case map_of (cache m) k of
        Some r \<Rightarrow> turns r
      | None \<Rightarrow> (case map_of (durable m) k of Some r \<Rightarrow> turns r | None \<Rightarrow> [])) \<and>
   (map_of (cache m) k = None \<and> map_of (durable m) k = None \<longrightarrow>
      fst (getHistory cfg k m) = [] \<and>
      (0 < cacheSize cfg \<longrightarrow>
         map_of (cache (snd (getHistory cfg k m))) k =
           Some \<lparr>turns = [], firstSeen = clock m, lastUpdated = clock m\<rparr>) \<and>
      (store_up m \<longrightarrow>
         map_of (durable (snd (getHistory cfg k m))) k =
           Some \<lparr>turns = [], firstSeen = clock m, lastUpdated = clock m\<rparr>) \<and>
      (\<not> store_up m \<longrightarrow> k \<in> set (not_yet_durable (snd (getHistory cfg k m)))))"
  by (auto simp: getHistory_def load_record_def cache_put_hit store_put_hit Let_def
      split: option.splits)

theorem getHistory_absent_is_empty_witness:
  "map_of (cache manager_empty) (''bob'', ''Gemini'') = None \<and>
   map_of (durable manager_empty) (''bob'', ''Gemini'') = None \<and>
   0 < cacheSize cfg_small \<and> store_up manager_empty \<and>
   getHistory cfg_small (''bob'', ''Gemini'') manager_empty =
     ([], manager_empty
        \<lparr>cache := [((''bob'', ''Gemini''), \<lparr>turns = [], firstSeen = 5, lastUpdated = 5\<rparr>)],
          durable := [((''bob'', ''Gemini''), \<lparr>turns = [], firstSeen = 5, lastUpdated = 5\<rparr>)]\<rparr>)"
  using getHistory_absent_is_empty [of cfg_small "(''bob'', ''Gemini'')" manager_empty]
  by (simp add: manager_defs manager_samples)

subsection \<open>Cleanup\<close>

text \<open>
  C6. After \<open>runCleanup\<close> at \<open>now\<close> the store holds exactly the records it held whose
  \<open>lastUpdated\<close> is not older than \<open>cleanupDays\<close> days before \<open>now\<close>; the count returned
  is the number of records removed. Eligibility does not change with the other fields
  of a record. With \<open>cleanupDays\<close> at 30, a record last updated 31 days before \<open>now\<close> is
  eligible and one last updated a day before is not.
\<close>

theorem runCleanup_removes_exactly_eligible:
  "set (durable (snd (runCleanup cfg now m))) =
     {entry \<in> set (durable m). \<not> lastUpdated (snd entry) < now - int (cleanupDays cfg) * ms_per_day} \<and>
   fst (runCleanup cfg now m) =
     length (filter (\<lambda>entry. lastUpdated (snd entry) < now - int (cleanupDays cfg) * ms_per_day) (durable m)) \<and>
   fst (runCleanup cfg now m) + length (durable (snd (runCleanup cfg now m))) = length (durable m) \<and>
   eligible cfg now (r\<lparr>turns := ts, firstSeen := f\<rparr>) = eligible cfg now r \<and>
   (cleanupDays cfg = 30 \<longrightarrow>
      eligible cfg now (r\<lparr>lastUpdated := now - 31 * ms_per_day\<rparr>) \<and>
      \<not> eligible cfg now (r\<lparr>lastUpdated := now - 1 * ms_per_day\<rparr>))"
proof -
  have "length (filter P xs) + length (filter (\<lambda>x. \<not> P x) xs) = length xs" for P and xs :: "(conv_key \<times> conversation) list"
    by (rule sum_length_filter_compl)
  then show ?thesis
    by (auto simp: runCleanup_def eligible_def Let_def ms_per_day_def)
qed

theorem runCleanup_removes_exactly_eligible_witness:
  "cleanupDays cfg_small = 30 \<and>
   runCleanup cfg_small 4000000000 (manager_aged 4000000000) =
     (1, (manager_aged 4000000000)
           \<lparr>cache := [],
             durable := [((''new'', ''ChatGPT''),
                          \<lparr>turns = [], firstSeen = 0, lastUpdated = 4000000000 - 1 * ms_per_day\<rparr>)]\<rparr>)"
  using runCleanup_removes_exactly_eligible [of cfg_small 4000000000 "manager_aged 4000000000"]
  by (simp add: manager_defs manager_samples)

end
